theory Spec2Isabelle
  imports Main "HOL-Library.Word"
begin

unbundle bit_operations_syntax

section \<open>Configuration of the sketch (launchPad.ino, lines 50-89)\<close>

text \<open>
  The port bit numbers of the five output lines on PORTD, the two analog channels and the
  two timing constants. The leading and trailing underscores of the macro names are dropped.
\<close>

definition SafetyLedBit :: nat where "SafetyLedBit = 2"
definition ErrorLedBit :: nat where "ErrorLedBit = 3"
definition Pad1LaunchBit :: nat where "Pad1LaunchBit = 6"
definition Pad2LaunchBit :: nat where "Pad2LaunchBit = 5"
definition CompressorBit :: nat where "CompressorBit = 4"

definition Pressure1Analog :: nat where "Pressure1Analog = 1"
definition Pressure2Analog :: nat where "Pressure2Analog = 2"

definition pulse_halfwidth :: "32 word" where "pulse_halfwidth = 100"
definition zigbee_timeout :: "32 word" where "zigbee_timeout = 1000"

section \<open>The LaunchDataPacket collaborator\<close>

text \<open>
  Modelled from the spec: the class LaunchDataPacket (LaunchDataPacket.h) is a library
  that the sketch includes; only its calls are in the sketch. The object is the command
  snapshot of the spec (launch request, arm flag, compressor request, pad selection), the
  pressure reading it carries for telemetry, and the time of the last good receipt that
  the watchdog compares against. Its methods act on the object only: the output port of
  the sketch is driven by the sketch alone, through the bit macros it defines itself.
\<close>

record LaunchDataPacket =
  pressure1 :: "16 word"
  pressure2 :: "16 word"
  masterArm :: bool
  masterLaunch :: bool
  compressor :: bool
  pad1Selected :: bool
  pad2Selected :: bool
  lastReceive :: "32 word"

text \<open>
  Modelled from the spec: the fields of one decoded inbound command of the master panel
  (the command snapshot of section 3).
\<close>

record Command =
  cmdArm :: bool
  cmdLaunch :: bool
  cmdCompressor :: bool
  cmdPad1 :: bool
  cmdPad2 :: bool

text \<open>
  Modelled from the spec: the setters and getters of the class that the sketch calls. Each
  one writes or reads the one field it names and nothing else.
\<close>

definition setPressure1 :: "16 word \<Rightarrow> LaunchDataPacket \<Rightarrow> LaunchDataPacket" where
  "setPressure1 v d = d\<lparr>pressure1 := v\<rparr>"

definition setPressure2 :: "16 word \<Rightarrow> LaunchDataPacket \<Rightarrow> LaunchDataPacket" where
  "setPressure2 v d = d\<lparr>pressure2 := v\<rparr>"

definition isPad1Selected :: "LaunchDataPacket \<Rightarrow> bool" where
  "isPad1Selected d = pad1Selected d"

definition isPad2Selected :: "LaunchDataPacket \<Rightarrow> bool" where
  "isPad2Selected d = pad2Selected d"

definition isMasterLaunchSet :: "LaunchDataPacket \<Rightarrow> bool" where
  "isMasterLaunchSet d = masterLaunch d"

definition isCompressorOn :: "LaunchDataPacket \<Rightarrow> bool" where
  "isCompressorOn d = compressor d"

definition compressorOff :: "LaunchDataPacket \<Rightarrow> LaunchDataPacket" where
  "compressorOff d = d\<lparr>compressor := False\<rparr>"

definition masterArmIsOff :: "LaunchDataPacket \<Rightarrow> LaunchDataPacket" where
  "masterArmIsOff d = d\<lparr>masterArm := False\<rparr>"

definition masterLaunchClear :: "LaunchDataPacket \<Rightarrow> LaunchDataPacket" where
  "masterLaunchClear d = d\<lparr>masterLaunch := False\<rparr>"

text \<open>
  Modelled from the spec: the watchdog, true iff \<open>now - lastGoodReceiveTime > timeoutWindow\<close>
  (section 4.1), on the 32-bit millisecond clock, with the window of the sketch.
\<close>

definition didMasterTimeout :: "32 word \<Rightarrow> LaunchDataPacket \<Rightarrow> bool" where
  "didMasterTimeout now d = (zigbee_timeout < now - lastReceive d)"

text \<open>
  Modelled from the spec: the inbound poll (section 6). When a structurally valid command
  was decoded it replaces the command snapshot and the time of the last good receipt;
  otherwise the object is left as it is.
\<close>

definition readDataFromXbee :: "Command option \<Rightarrow> 32 word \<Rightarrow> LaunchDataPacket \<Rightarrow> LaunchDataPacket" where
  "readDataFromXbee rx now d =
     (case rx of
        None \<Rightarrow> d
      | Some c \<Rightarrow> d\<lparr>masterArm := cmdArm c, masterLaunch := cmdLaunch c,
                     compressor := cmdCompressor c, pad1Selected := cmdPad1 c,
                     pad2Selected := cmdPad2 c, lastReceive := now\<rparr>)"

section \<open>The state of the sketch and what a tick reads from its environment\<close>

text \<open>
  Every effect of the sketch on the outside is logged, in program order: a write of the
  output port (with the value written), the blocking delay, an analog sample stored in
  the packet, and a telemetry packet handed to the radio (the object as it was sent).
\<close>

datatype event =
    PortD "8 word"
  | Delay nat
  | AnalogRead nat "16 word"
  | SendToMaster LaunchDataPacket

text \<open>The global variables (lines 95-130), the output register PORTD and the log.\<close>

record sketch =
  pulse :: bool
  timeSinceLastPulse :: "32 word"
  timeSinceLastMasterSignal :: "32 word"
  wasRocketLaunched :: bool
  PORTD :: "8 word"
  data :: LaunchDataPacket
  trace :: "event list"

text \<open>
  What one execution of \<open>updateData\<close> reads: the two analog samples of \<open>readPressure\<close>,
  the two calls of \<open>millis()\<close> in the heartbeat, the command the radio decodes (if any)
  with the clock at the poll, the clock at the watchdog check, and the two analog samples
  taken after a firing.
\<close>

record tickInput =
  adc1 :: "16 word"
  adc2 :: "16 word"
  millis1 :: "32 word"
  millis2 :: "32 word"
  received :: "Command option"
  millisRx :: "32 word"
  millisWd :: "32 word"
  adc1Post :: "16 word"
  adc2Post :: "16 word"

section \<open>The output port\<close>

text \<open>The Arduino macros \<open>bitSet(v, b)\<close> = \<open>v |= (1 << b)\<close> and \<open>bitClear(v, b)\<close> = \<open>v &= ~(1 << b)\<close>.\<close>

definition bitSet :: "8 word \<Rightarrow> nat \<Rightarrow> 8 word" where
  "bitSet v b = v OR push_bit b 1"

definition bitClear :: "8 word \<Rightarrow> nat \<Rightarrow> 8 word" where
  "bitClear v b = v AND NOT (push_bit b 1)"

definition writePORTD :: "8 word \<Rightarrow> sketch \<Rightarrow> sketch" where
  "writePORTD v s = s\<lparr>PORTD := v, trace := trace s @ [PortD v]\<rparr>"

definition delay :: "nat \<Rightarrow> sketch \<Rightarrow> sketch" where
  "delay n s = s\<lparr>trace := trace s @ [Delay n]\<rparr>"

text \<open>\<open>data.setPressureN(analogRead(channel))\<close> with the sample \<open>v\<close> read from the channel.\<close>

definition samplePressure1 :: "16 word \<Rightarrow> sketch \<Rightarrow> sketch" where
  "samplePressure1 v s =
     s\<lparr>data := setPressure1 v (data s), trace := trace s @ [AnalogRead Pressure1Analog v]\<rparr>"

definition samplePressure2 :: "16 word \<Rightarrow> sketch \<Rightarrow> sketch" where
  "samplePressure2 v s =
     s\<lparr>data := setPressure2 v (data s), trace := trace s @ [AnalogRead Pressure2Analog v]\<rparr>"

section \<open>The functions of the sketch\<close>

text \<open>Lines 140-159: the two LED setters (no caller in the sketch).\<close>

definition setSafetyLedState :: "bool \<Rightarrow> sketch \<Rightarrow> sketch" where
  "setSafetyLedState state s =
     (if state then writePORTD (bitSet (PORTD s) SafetyLedBit) s
      else writePORTD (bitClear (PORTD s) SafetyLedBit) s)"

definition setErrorLedState :: "bool \<Rightarrow> sketch \<Rightarrow> sketch" where
  "setErrorLedState state s =
     (if state then writePORTD (bitSet (PORTD s) ErrorLedBit) s
      else writePORTD (bitClear (PORTD s) ErrorLedBit) s)"

text \<open>
  Lines 166-177. Modelled from the spec: \<open>data.sendDataToMaster()\<close> hands the packet object,
  as it stands at the call, to the radio.
\<close>

definition readZigbee :: "tickInput \<Rightarrow> sketch \<Rightarrow> sketch" where
  "readZigbee i s = s\<lparr>data := readDataFromXbee (received i) (millisRx i) (data s)\<rparr>"

definition writeZigbeeMaster :: "sketch \<Rightarrow> sketch" where
  "writeZigbeeMaster s = s\<lparr>trace := trace s @ [SendToMaster (data s)]\<rparr>"

text \<open>Lines 182-199.\<close>

definition blinkErrorLed :: "sketch \<Rightarrow> sketch" where
  "blinkErrorLed s =
     (if pulse s then writePORTD (bitSet (PORTD s) ErrorLedBit) s
      else writePORTD (bitClear (PORTD s) ErrorLedBit) s)"

definition blinkSafetyLed :: "sketch \<Rightarrow> sketch" where
  "blinkSafetyLed s =
     (if pulse s then writePORTD (bitSet (PORTD s) SafetyLedBit) s
      else writePORTD (bitClear (PORTD s) SafetyLedBit) s)"

text \<open>Lines 206-209.\<close>

definition readPressure :: "tickInput \<Rightarrow> sketch \<Rightarrow> sketch" where
  "readPressure i s = samplePressure2 (adc2 i) (samplePressure1 (adc1 i) s)"

text \<open>Lines 214-232.\<close>

definition launchRocket :: "tickInput \<Rightarrow> sketch \<Rightarrow> sketch" where
  "launchRocket i s =
     (if wasRocketLaunched s then s
      else
        let s1 = s\<lparr>wasRocketLaunched := True\<rparr>;
            s2 = writePORTD (bitClear (PORTD s1) CompressorBit) s1;
            s3 = (if isPad1Selected (data s2)
                  then writePORTD (bitSet (PORTD s2) Pad1LaunchBit) s2 else s2);
            s4 = (if isPad2Selected (data s3)
                  then writePORTD (bitSet (PORTD s3) Pad2LaunchBit) s3 else s3);
            s5 = delay 100 s4;
            s6 = writePORTD (bitClear (PORTD s5) Pad1LaunchBit) s5;
            s7 = writePORTD (bitClear (PORTD s6) Pad2LaunchBit) s6;
            s8 = samplePressure1 (adc1Post i) s7
        in samplePressure2 (adc2Post i) s8)"

text \<open>
  Lines 247-255, the heartbeat: \<open>pulseTime\<close> is a signed 32-bit \<open>long\<close>, the difference of
  the unsigned clock and the stored time, compared as a signed number.
\<close>

definition heartbeat :: "tickInput \<Rightarrow> sketch \<Rightarrow> sketch" where
  "heartbeat i s =
     (let pulseTime = millis1 i - timeSinceLastPulse s
      in if pulse_halfwidth <s pulseTime
         then
           let s1 = s\<lparr>timeSinceLastPulse := millis2 i\<rparr>;
               s2 = s1\<lparr>pulse := (pulse s1 \<noteq> True)\<rparr>
           in if pulse s2 then writeZigbeeMaster s2 else s2
         else s)"

text \<open>Lines 260-276, the decision taken after the inbound poll.\<close>

definition sequencer :: "tickInput \<Rightarrow> sketch \<Rightarrow> sketch" where
  "sequencer i s =
     (if didMasterTimeout (millisWd i) (data s)
      then
        blinkErrorLed
          (s\<lparr>data := masterLaunchClear (masterArmIsOff (compressorOff (data s)))\<rparr>)
      else if isMasterLaunchSet (data s) then launchRocket i s
      else
        let s1 = s\<lparr>wasRocketLaunched := False\<rparr>
        in if isCompressorOn (data s1)
           then writePORTD (bitSet (PORTD s1) CompressorBit) s1
           else writePORTD (bitClear (PORTD s1) CompressorBit) s1)"

text \<open>Lines 240-277: one tick.\<close>

definition updateData :: "tickInput \<Rightarrow> sketch \<Rightarrow> sketch" where
  "updateData i s = sequencer i (readZigbee i (heartbeat i (readPressure i s)))"

text \<open>Lines 311-313: \<open>loop\<close> runs the tick again and again; here over a list of inputs.\<close>

fun loop :: "tickInput list \<Rightarrow> sketch \<Rightarrow> sketch" where
  "loop [] s = s"
| "loop (i # is) s = loop is (updateData i s)"

text \<open>
  Power-on: the initialisers of the globals and \<open>setup\<close> (which sets pin directions only),
  the port register at its reset value, and the packet object as constructed.
\<close>

definition powerOn :: "LaunchDataPacket \<Rightarrow> sketch" where
  "powerOn d =
     \<lparr>pulse = False, timeSinceLastPulse = 0, timeSinceLastMasterSignal = 0,
      wasRocketLaunched = False, PORTD = 0, data = d, trace = []\<rparr>"

section \<open>Observing a tick\<close>

text \<open>
  The vocabulary of the properties. None of it is part of the sketch: it names what the
  sketch reads and writes in one tick and over a run of ticks.
\<close>

text \<open>
  The state at line 259: after the per-tick sample, the heartbeat and the inbound poll,
  before the decision.
\<close>

definition polled :: "tickInput \<Rightarrow> sketch \<Rightarrow> sketch" where
  "polled i s = readZigbee i (heartbeat i (readPressure i s))"

text \<open>
  What the decision reads: the watchdog's answer, the launch request of the packet, and
  whether the tick executes the firing sequence (no timeout, request set, latch clear).
\<close>

definition timedOut :: "tickInput \<Rightarrow> sketch \<Rightarrow> bool" where
  "timedOut i s = didMasterTimeout (millisWd i) (data (polled i s))"

definition launchSeen :: "tickInput \<Rightarrow> sketch \<Rightarrow> bool" where
  "launchSeen i s = isMasterLaunchSet (data (polled i s))"

definition fires :: "tickInput \<Rightarrow> sketch \<Rightarrow> bool" where
  "fires i s = (\<not> timedOut i s \<and> launchSeen i s \<and> \<not> wasRocketLaunched s)"

text \<open>
  The heartbeat test of line 248 on the state at the start of the tick.
\<close>

definition flips :: "tickInput \<Rightarrow> sketch \<Rightarrow> bool" where
  "flips i s = (pulse_halfwidth <s millis1 i - timeSinceLastPulse s)"

text \<open>
  The events that one tick, and a run of ticks, append to the log.
\<close>

definition tickEvents :: "tickInput \<Rightarrow> sketch \<Rightarrow> event list" where
  "tickEvents i s = drop (length (trace s)) (trace (updateData i s))"

fun loopEvents :: "tickInput list \<Rightarrow> sketch \<Rightarrow> event list" where
  "loopEvents [] s = []"
| "loopEvents (i # is) s = tickEvents i s @ loopEvents is (updateData i s)"

text \<open>
  What the sequencer observes in each tick of a run: whether the watchdog reports a
  timeout, and whether the launch request of the packet is set, both after the poll.
\<close>

fun observed :: "tickInput list \<Rightarrow> sketch \<Rightarrow> (bool \<times> bool) list" where
  "observed [] s = []"
| "observed (i # is) s = (timedOut i s, launchSeen i s) # observed is (updateData i s)"

text \<open>
  Projections of a list of events: the port values written, the number of firing
  sequences (the blocking delay occurs in the firing sequence only), the packets sent,
  and the analog samples stored.
\<close>

fun portValues :: "event list \<Rightarrow> 8 word list" where
  "portValues [] = []"
| "portValues (PortD v # es) = v # portValues es"
| "portValues (Delay n # es) = portValues es"
| "portValues (AnalogRead c v # es) = portValues es"
| "portValues (SendToMaster d # es) = portValues es"

fun firings :: "event list \<Rightarrow> nat" where
  "firings [] = 0"
| "firings (Delay n # es) = Suc (firings es)"
| "firings (PortD v # es) = firings es"
| "firings (AnalogRead c v # es) = firings es"
| "firings (SendToMaster d # es) = firings es"

fun telemetry :: "event list \<Rightarrow> LaunchDataPacket list" where
  "telemetry [] = []"
| "telemetry (SendToMaster d # es) = d # telemetry es"
| "telemetry (PortD v # es) = telemetry es"
| "telemetry (Delay n # es) = telemetry es"
| "telemetry (AnalogRead c v # es) = telemetry es"

fun samples :: "event list \<Rightarrow> (nat \<times> 16 word) list" where
  "samples [] = []"
| "samples (AnalogRead c v # es) = (c, v) # samples es"
| "samples (PortD v # es) = samples es"
| "samples (Delay n # es) = samples es"
| "samples (SendToMaster d # es) = samples es"

text \<open>
  Both pad valve outputs are off in a port value.
\<close>

definition valvesClosed :: "8 word \<Rightarrow> bool" where
  "valvesClosed v = (\<not> bit v Pad1LaunchBit \<and> \<not> bit v Pad2LaunchBit)"

text \<open>
  Some port value written has the valve output of the pad on.
\<close>

definition pad1Opened :: "event list \<Rightarrow> bool" where
  "pad1Opened es = list_ex (\<lambda>v. bit v Pad1LaunchBit) (portValues es)"

definition pad2Opened :: "event list \<Rightarrow> bool" where
  "pad2Opened es = list_ex (\<lambda>v. bit v Pad2LaunchBit) (portValues es)"

text \<open>
  The order of switching in a sequence of port writes that starts from the port value
  \<open>p\<close>: every write that turns a valve output from off to on finds the compressor output
  off already before the write, and leaves it off.
\<close>

fun valvesOpenAfterCompressorOff :: "8 word \<Rightarrow> 8 word list \<Rightarrow> bool" where
  "valvesOpenAfterCompressorOff p [] = True"
| "valvesOpenAfterCompressorOff p (w # ws) =
     ((if (bit w Pad1LaunchBit \<and> \<not> bit p Pad1LaunchBit) \<or>
          (bit w Pad2LaunchBit \<and> \<not> bit p Pad2LaunchBit)
       then \<not> bit p CompressorBit \<and> \<not> bit w CompressorBit else True) \<and>
      valvesOpenAfterCompressorOff w ws)"

text \<open>
  The number of writes in a sequence of port writes, starting from the port value \<open>p\<close>,
  that turn the output bit \<open>b\<close> from off to on.
\<close>

fun openings :: "nat \<Rightarrow> 8 word \<Rightarrow> 8 word list \<Rightarrow> nat" where
  "openings b p [] = 0"
| "openings b p (w # ws) = (if bit w b \<and> \<not> bit p b then 1 else 0) + openings b w ws"

text \<open>
  The events of a tick before the blocking delay and from it on, and the port value that
  is held during the delay (the last one written before it).
\<close>

definition beforeHold :: "event list \<Rightarrow> event list" where
  "beforeHold es = takeWhile (\<lambda>e. e \<noteq> Delay 100) es"

definition fromHold :: "event list \<Rightarrow> event list" where
  "fromHold es = dropWhile (\<lambda>e. e \<noteq> Delay 100) es"

definition heldPort :: "tickInput \<Rightarrow> sketch \<Rightarrow> 8 word" where
  "heldPort i s = last (portValues (beforeHold (tickEvents i s)))"

section \<open>Closed forms\<close>

text \<open>
  The events and the port value of each part of a tick, written out; the lemmas below
  derive them from the functions of the sketch.
\<close>

definition sampled :: "tickInput \<Rightarrow> LaunchDataPacket \<Rightarrow> LaunchDataPacket" where
  "sampled i d = setPressure2 (adc2 i) (setPressure1 (adc1 i) d)"

definition hbEvents :: "tickInput \<Rightarrow> sketch \<Rightarrow> event list" where
  "hbEvents i s =
     [AnalogRead Pressure1Analog (adc1 i), AnalogRead Pressure2Analog (adc2 i)] @
     (if flips i s \<and> \<not> pulse s then [SendToMaster (sampled i (data s))] else [])"

definition openedPort :: "8 word \<Rightarrow> bool \<Rightarrow> bool \<Rightarrow> 8 word" where
  "openedPort p a b =
     (let p1 = bitClear p CompressorBit;
          p2 = (if a then bitSet p1 Pad1LaunchBit else p1)
      in if b then bitSet p2 Pad2LaunchBit else p2)"

definition launchPort :: "8 word \<Rightarrow> bool \<Rightarrow> bool \<Rightarrow> 8 word" where
  "launchPort p sel1 sel2 =
     (let p1 = bitClear p CompressorBit;
          p2 = (if sel1 then bitSet p1 Pad1LaunchBit else p1);
          p3 = (if sel2 then bitSet p2 Pad2LaunchBit else p2)
      in bitClear (bitClear p3 Pad1LaunchBit) Pad2LaunchBit)"

definition launchEvents :: "tickInput \<Rightarrow> 8 word \<Rightarrow> bool \<Rightarrow> bool \<Rightarrow> event list" where
  "launchEvents i p sel1 sel2 =
     (let p1 = bitClear p CompressorBit;
          p2 = (if sel1 then bitSet p1 Pad1LaunchBit else p1);
          p3 = (if sel2 then bitSet p2 Pad2LaunchBit else p2);
          p4 = bitClear p3 Pad1LaunchBit;
          p5 = bitClear p4 Pad2LaunchBit
      in [PortD p1] @ (if sel1 then [PortD p2] else []) @ (if sel2 then [PortD p3] else []) @
         [Delay 100, PortD p4, PortD p5,
          AnalogRead Pressure1Analog (adc1Post i), AnalogRead Pressure2Analog (adc2Post i)])"

definition decisionEvents :: "tickInput \<Rightarrow> sketch \<Rightarrow> event list" where
  "decisionEvents i s =
     (if timedOut i s
      then [PortD (if pulse (polled i s) then bitSet (PORTD s) ErrorLedBit
                   else bitClear (PORTD s) ErrorLedBit)]
      else if launchSeen i s
      then (if wasRocketLaunched s then []
            else launchEvents i (PORTD s) (isPad1Selected (data (polled i s)))
                   (isPad2Selected (data (polled i s))))
      else [PortD (if isCompressorOn (data (polled i s)) then bitSet (PORTD s) CompressorBit
                   else bitClear (PORTD s) CompressorBit)])"

section \<open>Concrete inputs and states\<close>

text \<open>
  A packet with nothing set, a tick at clock value \<open>t\<close> that decodes the command \<open>rx\<close> (if
  any), a command with the arm flag set, and the states of one scenario: a command without
  launch request arrives, then one with the request, the request is held, the link is
  lost, a command without the request arrives again, the request stays clear for a tick,
  and a command with the request arrives and is held.
\<close>

definition packet0 :: LaunchDataPacket where
  "packet0 = \<lparr>pressure1 = 0, pressure2 = 0, masterArm = False, masterLaunch = False,
     compressor = False, pad1Selected = False, pad2Selected = False, lastReceive = 0\<rparr>"

definition tickAt :: "32 word \<Rightarrow> Command option \<Rightarrow> tickInput" where
  "tickAt t rx = \<lparr>adc1 = 512, adc2 = 300, millis1 = t, millis2 = t, received = rx,
     millisRx = t, millisWd = t, adc1Post = 40, adc2Post = 35\<rparr>"

definition command :: "bool \<Rightarrow> bool \<Rightarrow> bool \<Rightarrow> bool \<Rightarrow> Command" where
  "command launch compr p1 p2 =
     \<lparr>cmdArm = True, cmdLaunch = launch, cmdCompressor = compr, cmdPad1 = p1, cmdPad2 = p2\<rparr>"

definition compressorRunning :: sketch where
  "compressorRunning =
     updateData (tickAt 0 (Some (command False True False False))) (powerOn packet0)"

definition requestClear :: tickInput where
  "requestClear = tickAt 0 (Some (command False True True False))"

definition requestSet :: tickInput where
  "requestSet = tickAt 10 (Some (command True True True False))"

definition armedState :: sketch where
  "armedState = updateData requestClear (powerOn packet0)"

definition firedState :: sketch where
  "firedState = updateData requestSet armedState"

definition heldState :: sketch where
  "heldState = updateData (tickAt 20 None) firedState"

definition lostState :: sketch where
  "lostState = updateData (tickAt 2000 None) heldState"

definition clearedState :: sketch where
  "clearedState = updateData (tickAt 2010 (Some (command False False True False))) lostState"

definition relaunch :: tickInput where
  "relaunch = tickAt 2020 (Some (command True False True False))"

definition idleState :: sketch where
  "idleState = updateData (tickAt 2015 None) clearedState"

definition refiredState :: sketch where
  "refiredState = updateData relaunch idleState"

section \<open>Bits of the port and projections of the log\<close>

lemma bit_bitSet: "bit (bitSet v b) n \<longleftrightarrow> bit v n \<or> (n = b \<and> n < 8)"
  by (auto simp: bitSet_def bit_simps)

lemma bit_bitClear: "bit (bitClear v b) n \<longleftrightarrow> bit v n \<and> n \<noteq> b"
  by (auto simp: bitClear_def bit_simps dest: bit_imp_le_length)

lemmas bit_consts = SafetyLedBit_def ErrorLedBit_def Pad1LaunchBit_def Pad2LaunchBit_def
  CompressorBit_def

lemma portValues_append: "portValues (xs @ ys) = portValues xs @ portValues ys"
  by (induction xs rule: portValues.induct) simp_all

lemma firings_append: "firings (xs @ ys) = firings xs + firings ys"
  by (induction xs rule: firings.induct) simp_all

lemma telemetry_append: "telemetry (xs @ ys) = telemetry xs @ telemetry ys"
  by (induction xs rule: telemetry.induct) simp_all

lemma samples_append: "samples (xs @ ys) = samples xs @ samples ys"
  by (induction xs rule: samples.induct) simp_all

section \<open>One tick in closed form\<close>

lemma polled_eq:
  "polled i s =
     s\<lparr>pulse := (if flips i s then \<not> pulse s else pulse s),
       timeSinceLastPulse := (if flips i s then millis2 i else timeSinceLastPulse s),
       data := readDataFromXbee (received i) (millisRx i) (sampled i (data s)),
       trace := trace s @ hbEvents i s\<rparr>"
  by (simp add: polled_def readZigbee_def heartbeat_def readPressure_def samplePressure1_def
      samplePressure2_def writeZigbeeMaster_def flips_def hbEvents_def sampled_def Let_def)

lemma polled_fields [simp]:
  "PORTD (polled i s) = PORTD s"
  "wasRocketLaunched (polled i s) = wasRocketLaunched s"
  "timeSinceLastMasterSignal (polled i s) = timeSinceLastMasterSignal s"
  "pulse (polled i s) = (if flips i s then \<not> pulse s else pulse s)"
  "trace (polled i s) = trace s @ hbEvents i s"
  by (simp_all add: polled_eq)

lemma polled_selection:
  "isPad1Selected (data (polled i s)) =
     isPad1Selected (readDataFromXbee (received i) (millisRx i) (data s))"
  "isPad2Selected (data (polled i s)) =
     isPad2Selected (readDataFromXbee (received i) (millisRx i) (data s))"
  by (simp_all add: polled_eq isPad1Selected_def isPad2Selected_def readDataFromXbee_def
      sampled_def setPressure1_def setPressure2_def split: option.splits)

lemma launchRocket_fresh:
  "\<not> wasRocketLaunched s \<Longrightarrow>
   launchRocket i s =
     s\<lparr>wasRocketLaunched := True,
       PORTD := launchPort (PORTD s) (isPad1Selected (data s)) (isPad2Selected (data s)),
       data := setPressure2 (adc2Post i) (setPressure1 (adc1Post i) (data s)),
       trace := trace s @ launchEvents i (PORTD s) (isPad1Selected (data s)) (isPad2Selected (data s))\<rparr>"
  by (simp add: launchRocket_def Let_def writePORTD_def delay_def samplePressure1_def
      samplePressure2_def launchEvents_def launchPort_def)

lemma launchRocket_latched: "wasRocketLaunched s \<Longrightarrow> launchRocket i s = s"
  by (simp add: launchRocket_def)

lemma launchRocket_eq:
  "launchRocket i s =
     (if wasRocketLaunched s then s
      else s\<lparr>wasRocketLaunched := True,
       PORTD := launchPort (PORTD s) (isPad1Selected (data s)) (isPad2Selected (data s)),
       data := setPressure2 (adc2Post i) (setPressure1 (adc1Post i) (data s)),
       trace := trace s @ launchEvents i (PORTD s) (isPad1Selected (data s)) (isPad2Selected (data s))\<rparr>)"
  by (simp add: launchRocket_fresh launchRocket_latched)

lemma updateData_polled: "updateData i s = sequencer i (polled i s)"
  by (simp add: updateData_def polled_def)

lemma trace_updateData: "trace (updateData i s) = trace s @ hbEvents i s @ decisionEvents i s"
  by (simp add: updateData_polled sequencer_def decisionEvents_def timedOut_def launchSeen_def
      blinkErrorLed_def writePORTD_def launchRocket_eq Let_def)

lemma tickEvents_eq: "tickEvents i s = hbEvents i s @ decisionEvents i s"
  by (simp add: tickEvents_def trace_updateData)

lemma trace_tick: "trace (updateData i s) = trace s @ tickEvents i s"
  by (simp add: tickEvents_def trace_updateData)

lemma PORTD_updateData:
  "PORTD (updateData i s) =
     (if timedOut i s
      then (if pulse (polled i s) then bitSet (PORTD s) ErrorLedBit
            else bitClear (PORTD s) ErrorLedBit)
      else if launchSeen i s
      then (if wasRocketLaunched s then PORTD s
            else launchPort (PORTD s) (isPad1Selected (data (polled i s)))
                   (isPad2Selected (data (polled i s))))
      else (if isCompressorOn (data (polled i s)) then bitSet (PORTD s) CompressorBit
            else bitClear (PORTD s) CompressorBit))"
  by (simp add: updateData_polled sequencer_def timedOut_def launchSeen_def
      blinkErrorLed_def writePORTD_def launchRocket_eq Let_def)

lemma latch_updateData:
  "wasRocketLaunched (updateData i s) =
     (if timedOut i s then wasRocketLaunched s else launchSeen i s)"
  by (simp add: updateData_polled sequencer_def timedOut_def launchSeen_def
      blinkErrorLed_def writePORTD_def launchRocket_eq Let_def)

lemma pulse_updateData: "pulse (updateData i s) = (if flips i s then \<not> pulse s else pulse s)"
  by (simp add: updateData_polled sequencer_def timedOut_def launchSeen_def
      blinkErrorLed_def writePORTD_def launchRocket_eq Let_def)

lemma timeSince_updateData:
  "timeSinceLastPulse (updateData i s) = (if flips i s then millis2 i else timeSinceLastPulse s)"
  by (simp add: updateData_polled sequencer_def blinkErrorLed_def writePORTD_def
      launchRocket_eq Let_def polled_eq)

lemma flips_sint: "flips i s = (100 < sint (millis1 i - timeSinceLastPulse s))"
  by (simp add: flips_def pulse_halfwidth_def word_sless_alt)


lemma hbEvents_ports: "portValues (hbEvents i s) = []"
  by (simp add: hbEvents_def)

lemma hbEvents_firings: "firings (hbEvents i s) = 0"
  by (simp add: hbEvents_def)

lemma hbEvents_telemetry:
  "telemetry (hbEvents i s) = (if flips i s \<and> \<not> pulse s then [sampled i (data s)] else [])"
  by (simp add: hbEvents_def)

lemma hbEvents_no_delay: "takeWhile (\<lambda>e. e \<noteq> Delay 100) (hbEvents i s @ es) =
    hbEvents i s @ takeWhile (\<lambda>e. e \<noteq> Delay 100) es"
  by (simp add: hbEvents_def)

lemma hbEvents_no_delay': "dropWhile (\<lambda>e. e \<noteq> Delay 100) (hbEvents i s @ es) =
    dropWhile (\<lambda>e. e \<noteq> Delay 100) es"
  by (simp add: hbEvents_def)

lemma launchEvents_telemetry: "telemetry (launchEvents i p a b) = []"
  by (simp add: launchEvents_def Let_def)

lemma launchEvents_ports:
  "portValues (launchEvents i p a b) =
     [bitClear p CompressorBit] @
     (if a then [bitSet (bitClear p CompressorBit) Pad1LaunchBit] else []) @
     (if b then [bitSet (if a then bitSet (bitClear p CompressorBit) Pad1LaunchBit
                         else bitClear p CompressorBit) Pad2LaunchBit] else []) @
     [bitClear (if b then bitSet (if a then bitSet (bitClear p CompressorBit) Pad1LaunchBit
                         else bitClear p CompressorBit) Pad2LaunchBit
                else if a then bitSet (bitClear p CompressorBit) Pad1LaunchBit
                else bitClear p CompressorBit) Pad1LaunchBit,
      launchPort p a b]"
  by (simp add: launchEvents_def launchPort_def Let_def)

lemma launchEvents_beforeHold:
  "takeWhile (\<lambda>e. e \<noteq> Delay 100) (launchEvents i p a b) =
     [PortD (bitClear p CompressorBit)] @
     (if a then [PortD (bitSet (bitClear p CompressorBit) Pad1LaunchBit)] else []) @
     (if b then [PortD (bitSet (if a then bitSet (bitClear p CompressorBit) Pad1LaunchBit
                         else bitClear p CompressorBit) Pad2LaunchBit)] else [])"
  by (simp add: launchEvents_def Let_def)

lemma launchEvents_fromHold:
  "dropWhile (\<lambda>e. e \<noteq> Delay 100) (launchEvents i p a b) =
     [Delay 100, PortD (bitClear (openedPort p a b) Pad1LaunchBit),
      PortD (bitClear (bitClear (openedPort p a b) Pad1LaunchBit) Pad2LaunchBit),
      AnalogRead Pressure1Analog (adc1Post i), AnalogRead Pressure2Analog (adc2Post i)]"
  by (simp add: launchEvents_def openedPort_def Let_def)

lemma launchEvents_heldPort:
  "last (portValues (takeWhile (\<lambda>e. e \<noteq> Delay 100) (launchEvents i p a b))) = openedPort p a b"
  by (simp add: launchEvents_beforeHold openedPort_def Let_def)

lemma launch_order:
  "valvesOpenAfterCompressorOff p (portValues (launchEvents i p a b))"
  by (simp add: launchEvents_ports launchPort_def bit_bitSet bit_bitClear bit_consts Let_def)

lemma launch_compressor_off:
  "list_all (\<lambda>w. \<not> bit w CompressorBit) (portValues (launchEvents i p a b))"
  by (simp add: launchEvents_ports launchPort_def bit_bitSet bit_bitClear bit_consts Let_def)

lemma decisionEvents_telemetry: "telemetry (decisionEvents i s) = []"
  by (simp add: decisionEvents_def launchEvents_telemetry)

lemma telemetry_tick:
  "telemetry (tickEvents i s) = (if flips i s \<and> \<not> pulse s then [sampled i (data s)] else [])"
  by (simp add: tickEvents_eq telemetry_append hbEvents_telemetry decisionEvents_telemetry)

lemma sampled_pressures: "pressure1 (sampled i d) = adc1 i \<and> pressure2 (sampled i d) = adc2 i"
  by (simp add: sampled_def setPressure1_def setPressure2_def)

lemma firings_tick: "firings (tickEvents i s) = (if fires i s then 1 else 0)"
  by (simp add: tickEvents_eq firings_append hbEvents_firings decisionEvents_def
      launchEvents_def fires_def Let_def)

section \<open>The valve outputs between ticks\<close>

lemma valvesClosed_updateData:
  "valvesClosed (PORTD s) \<Longrightarrow> valvesClosed (PORTD (updateData i s))"
  by (simp add: PORTD_updateData valvesClosed_def launchPort_def bit_bitSet bit_bitClear
      bit_consts Let_def)

lemma valvesClosed_loop:
  "valvesClosed (PORTD s) \<Longrightarrow> valvesClosed (PORTD (loop ins s))"
  by (induction ins arbitrary: s) (simp_all add: valvesClosed_updateData)

lemma valvesClosed_powerOn: "valvesClosed (PORTD (powerOn d))"
  by (simp add: powerOn_def valvesClosed_def)

lemma quiet_tick_ports:
  "valvesClosed (PORTD s) \<Longrightarrow> \<not> fires i s \<Longrightarrow>
   list_all valvesClosed (portValues (tickEvents i s))"
  by (auto simp add: tickEvents_eq hbEvents_def decisionEvents_def portValues_append fires_def
      valvesClosed_def bit_bitSet bit_bitClear bit_consts)

section \<open>A firing tick\<close>

lemma firing_tick_events:
  "fires i s \<Longrightarrow>
   tickEvents i s =
     hbEvents i s @
     launchEvents i (PORTD s) (isPad1Selected (data (polled i s)))
       (isPad2Selected (data (polled i s)))"
  by (simp add: tickEvents_eq decisionEvents_def fires_def)

lemma firing_tick_latches:
  "fires i s \<Longrightarrow> wasRocketLaunched (updateData i s) \<and> valvesClosed (PORTD (updateData i s))"
  by (simp add: latch_updateData fires_def PORTD_updateData launchPort_def valvesClosed_def
      bit_bitClear Let_def)

lemma pads_opened_firing:
  assumes "fires i s" and "valvesClosed (PORTD s)"
  shows "pad1Opened (tickEvents i s) = isPad1Selected (data (polled i s))"
    and "pad2Opened (tickEvents i s) = isPad2Selected (data (polled i s))"
  using assms
  by (auto simp add: firing_tick_events pad1Opened_def pad2Opened_def portValues_append
      hbEvents_ports launchEvents_ports launchPort_def valvesClosed_def bit_bitSet bit_bitClear
      bit_consts Let_def)

lemma heldPort_firing:
  "fires i s \<Longrightarrow>
   heldPort i s = openedPort (PORTD s) (isPad1Selected (data (polled i s)))
     (isPad2Selected (data (polled i s)))"
  by (simp add: heldPort_def beforeHold_def firing_tick_events hbEvents_no_delay
      portValues_append hbEvents_ports launchEvents_beforeHold openedPort_def Let_def)

lemma fromHold_firing:
  "fires i s \<Longrightarrow>
   fromHold (tickEvents i s) =
     [Delay 100, PortD (bitClear (heldPort i s) Pad1LaunchBit),
      PortD (bitClear (bitClear (heldPort i s) Pad1LaunchBit) Pad2LaunchBit),
      AnalogRead Pressure1Analog (adc1Post i), AnalogRead Pressure2Analog (adc2Post i)]"
  by (simp add: heldPort_firing) (simp add: fromHold_def firing_tick_events hbEvents_no_delay'
      launchEvents_fromHold)

lemma samples_firing:
  "fires i s \<Longrightarrow>
   samples (tickEvents i s) =
     [(Pressure1Analog, adc1 i), (Pressure2Analog, adc2 i),
      (Pressure1Analog, adc1Post i), (Pressure2Analog, adc2Post i)]"
  by (simp add: firing_tick_events samples_append hbEvents_def launchEvents_def Let_def)

lemma data_firing:
  "fires i s \<Longrightarrow>
   pressure1 (data (updateData i s)) = adc1Post i \<and>
   pressure2 (data (updateData i s)) = adc2Post i"
  by (simp add: updateData_polled sequencer_def fires_def timedOut_def launchSeen_def
      launchRocket_eq setPressure1_def setPressure2_def)

lemma heldPort_valves:
  "valvesClosed p \<Longrightarrow>
   bit (openedPort p a b) Pad1LaunchBit = a \<and> bit (openedPort p a b) Pad2LaunchBit = b"
  by (simp add: openedPort_def valvesClosed_def bit_bitSet bit_bitClear bit_consts Let_def)

lemma PORTD_firing:
  "fires i s \<Longrightarrow>
   PORTD (updateData i s) = bitClear (bitClear (heldPort i s) Pad1LaunchBit) Pad2LaunchBit"
  by (simp add: heldPort_firing) (simp add: PORTD_updateData fires_def launchPort_def
      openedPort_def Let_def)

lemma openings_launch:
  "valvesClosed p \<Longrightarrow>
   openings Pad1LaunchBit p (portValues (launchEvents i p a b)) = (if a then 1 else 0) \<and>
   openings Pad2LaunchBit p (portValues (launchEvents i p a b)) = (if b then 1 else 0)"
  by (simp add: launchEvents_ports launchPort_def valvesClosed_def bit_bitSet bit_bitClear
      bit_consts Let_def)

lemma openings_firing:
  assumes "fires i s" and "valvesClosed (PORTD s)"
  shows "openings Pad1LaunchBit (PORTD s) (portValues (tickEvents i s)) =
           (if isPad1Selected (data (polled i s)) then 1 else 0) \<and>
         openings Pad2LaunchBit (PORTD s) (portValues (tickEvents i s)) =
           (if isPad2Selected (data (polled i s)) then 1 else 0)"
  using assms(1) openings_launch [OF assms(2)]
  by (simp add: firing_tick_events portValues_append hbEvents_ports)

section \<open>Runs of ticks\<close>

lemma loop_append: "loop (xs @ ys) s = loop ys (loop xs s)"
  by (induction xs arbitrary: s) simp_all

lemma observed_append: "observed (xs @ ys) s = observed xs s @ observed ys (loop xs s)"
  by (induction xs arbitrary: s) simp_all

lemma loopEvents_append: "loopEvents (xs @ ys) s = loopEvents xs s @ loopEvents ys (loop xs s)"
  by (induction xs arbitrary: s) simp_all

lemma trace_loop: "trace (loop ins s) = trace s @ loopEvents ins s"
  by (induction ins arbitrary: s) (simp_all add: trace_tick)

lemma blocked_tick:
  assumes "wasRocketLaunched s" and "timedOut i s \<or> launchSeen i s"
  shows "wasRocketLaunched (updateData i s) \<and> firings (tickEvents i s) = 0"
  using assms by (auto simp add: latch_updateData firings_tick fires_def)

lemma blocked_run:
  assumes "wasRocketLaunched s" and "valvesClosed (PORTD s)"
    and "list_all (\<lambda>ob. fst ob \<or> snd ob) (observed hold s)"
  shows "wasRocketLaunched (loop hold s) \<and> firings (loopEvents hold s) = 0 \<and>
         list_all valvesClosed (portValues (loopEvents hold s))"
  using assms
proof (induction hold arbitrary: s)
  case Nil
  then show ?case by simp
next
  case (Cons i hold)
  from Cons.prems have tick: "timedOut i s \<or> launchSeen i s"
    and rest: "list_all (\<lambda>ob. fst ob \<or> snd ob) (observed hold (updateData i s))"
    by simp_all
  from blocked_tick [OF Cons.prems(1) tick]
  have latch: "wasRocketLaunched (updateData i s)" and none: "firings (tickEvents i s) = 0"
    by simp_all
  from Cons.prems(1) have quiet: "\<not> fires i s"
    by (simp add: fires_def)
  have ports: "list_all valvesClosed (portValues (tickEvents i s))"
    using Cons.prems(2) quiet by (rule quiet_tick_ports)
  have closed: "valvesClosed (PORTD (updateData i s))"
    using Cons.prems(2) by (rule valvesClosed_updateData)
  from Cons.IH [OF latch closed rest] none ports show ?case
    by (simp add: firings_append portValues_append)
qed

lemma held_run_fires_once:
  assumes "\<not> wasRocketLaunched s"
    and "list_all (\<lambda>ob. \<not> fst ob \<and> snd ob) (observed run s)"
    and "run \<noteq> []"
  shows "firings (loopEvents run s) = 1"
proof (cases run)
  case Nil
  with assms(3) show ?thesis by simp
next
  case (Cons i rest)
  from assms(2) Cons have now: "\<not> timedOut i s \<and> launchSeen i s"
    and later: "list_all (\<lambda>ob. \<not> fst ob \<and> snd ob) (observed rest (updateData i s))"
    by simp_all
  from now assms(1) have f: "fires i s"
    by (simp add: fires_def)
  from later have blocked: "list_all (\<lambda>ob. fst ob \<or> snd ob) (observed rest (updateData i s))"
    by (simp add: list_all_iff)
  from firing_tick_latches [OF f] blocked
  have "firings (loopEvents rest (updateData i s)) = 0"
    by (simp add: blocked_run)
  with f Cons show ?thesis
    by (simp add: firings_append firings_tick)
qed

lemma latch_clear_after_false:
  assumes "pre \<noteq> []" and "last (observed pre s) = (False, False)"
  shows "\<not> wasRocketLaunched (loop pre s)"
  using assms
proof (induction pre arbitrary: s)
  case Nil
  then show ?case by simp
next
  case (Cons i pre)
  show ?case
  proof (cases "pre = []")
    case True
    with Cons.prems show ?thesis by (simp add: latch_updateData)
  next
    case False
    then have "observed pre (updateData i s) \<noteq> []"
      by (cases pre) simp_all
    with Cons.prems have "last (observed pre (updateData i s)) = (False, False)"
      by simp
    from Cons.IH [OF False this] show ?thesis by simp
  qed
qed

lemma latch_clear_tick:
  "\<not> timedOut i s \<Longrightarrow> \<not> launchSeen i s \<Longrightarrow> \<not> wasRocketLaunched (updateData i s)"
  by (simp add: latch_updateData)

lemma debounced_run:
  assumes "wasRocketLaunched s"
    and "list_all (\<lambda>ob. \<not> fst ob \<and> snd ob) (observed rest s)"
  shows "portValues (loopEvents rest s) = [] \<and> firings (loopEvents rest s) = 0"
  using assms
proof (induction rest arbitrary: s)
  case Nil
  then show ?case by simp
next
  case (Cons i rest)
  from Cons.prems have now: "\<not> timedOut i s" "launchSeen i s"
    and later: "list_all (\<lambda>ob. \<not> fst ob \<and> snd ob) (observed rest (updateData i s))"
    by simp_all
  from now Cons.prems(1) have silent: "portValues (tickEvents i s) = []"
    by (simp add: tickEvents_eq portValues_append hbEvents_ports decisionEvents_def)
  from now Cons.prems(1) have none: "firings (tickEvents i s) = 0"
    by (simp add: firings_tick fires_def)
  from now have latch: "wasRocketLaunched (updateData i s)"
    by (simp add: latch_updateData)
  from Cons.IH [OF latch later] silent none show ?case
    by (simp add: portValues_append firings_append)
qed

lemma quiet_run:
  assumes "\<not> wasRocketLaunched s" and "valvesClosed (PORTD s)"
    and "list_all (\<lambda>ob. fst ob \<or> \<not> snd ob) (observed quiet s)"
  shows "\<not> wasRocketLaunched (loop quiet s) \<and> valvesClosed (PORTD (loop quiet s)) \<and>
         firings (loopEvents quiet s) = 0 \<and>
         list_all valvesClosed (portValues (loopEvents quiet s))"
  using assms
proof (induction quiet arbitrary: s)
  case Nil
  then show ?case by simp
next
  case (Cons i quiet)
  from Cons.prems have tick: "timedOut i s \<or> \<not> launchSeen i s"
    and rest: "list_all (\<lambda>ob. fst ob \<or> \<not> snd ob) (observed quiet (updateData i s))"
    by simp_all
  from tick have nofire: "\<not> fires i s"
    by (auto simp add: fires_def)
  from tick Cons.prems(1) have latch: "\<not> wasRocketLaunched (updateData i s)"
    by (auto simp add: latch_updateData)
  have closed: "valvesClosed (PORTD (updateData i s))"
    using Cons.prems(2) by (rule valvesClosed_updateData)
  have ports: "list_all valvesClosed (portValues (tickEvents i s))"
    using Cons.prems(2) nofire by (rule quiet_tick_ports)
  from nofire have none: "firings (tickEvents i s) = 0"
    by (simp add: firings_tick)
  from Cons.IH [OF latch closed rest] ports none show ?case
    by (simp add: portValues_append firings_append)
qed

lemma held_run_actuates_once:
  assumes "\<not> wasRocketLaunched s" and "valvesClosed (PORTD s)"
    and "list_all (\<lambda>ob. \<not> fst ob \<and> snd ob) (observed run s)"
    and "run \<noteq> []"
  shows "fires (hd run) s \<and>
         firings (loopEvents run s) = 1 \<and>
         portValues (loopEvents (tl run) (updateData (hd run) s)) = [] \<and>
         openings Pad1LaunchBit (PORTD s) (portValues (loopEvents run s)) =
           (if isPad1Selected (data (polled (hd run) s)) then 1 else 0) \<and>
         openings Pad2LaunchBit (PORTD s) (portValues (loopEvents run s)) =
           (if isPad2Selected (data (polled (hd run) s)) then 1 else 0)"
proof (cases run)
  case Nil
  with assms(4) show ?thesis by simp
next
  case (Cons i rest)
  from assms(3) Cons have now: "\<not> timedOut i s \<and> launchSeen i s"
    and later: "list_all (\<lambda>ob. \<not> fst ob \<and> snd ob) (observed rest (updateData i s))"
    by simp_all
  from now assms(1) have f: "fires i s"
    by (simp add: fires_def)
  from firing_tick_latches [OF f] have latch: "wasRocketLaunched (updateData i s)"
    by simp
  note after = debounced_run [OF latch later]
  note opens = openings_firing [OF f assms(2)]
  from f after opens Cons show ?thesis
    by (simp add: firings_append firings_tick portValues_append)
qed

section \<open>The scenario, evaluated\<close>

lemmas tick_eval = fires_def timedOut_def launchSeen_def polled_eq tickEvents_eq hbEvents_def
  decisionEvents_def launchEvents_def launchPort_def flips_sint tickAt_def command_def
  readDataFromXbee_def didMasterTimeout_def zigbee_timeout_def isMasterLaunchSet_def
  isCompressorOn_def isPad1Selected_def isPad2Selected_def sampled_def setPressure1_def
  setPressure2_def bitSet_def bitClear_def bit_consts Pressure1Analog_def Pressure2Analog_def
  Let_def

lemmas state_eval = updateData_polled sequencer_def launchRocket_eq blinkErrorLed_def
  writePORTD_def compressorOff_def masterArmIsOff_def masterLaunchClear_def powerOn_def
  packet0_def

lemma compressorRunning_eq:
  "compressorRunning =
     \<lparr>pulse = False, timeSinceLastPulse = 0, timeSinceLastMasterSignal = 0,
      wasRocketLaunched = False, PORTD = 16,
      data = \<lparr>pressure1 = 512, pressure2 = 300, masterArm = True, masterLaunch = False,
        compressor = True, pad1Selected = False, pad2Selected = False, lastReceive = 0\<rparr>,
      trace = [AnalogRead 1 512, AnalogRead 2 300, PortD 16]\<rparr>"
  by (simp add: compressorRunning_def updateData_polled polled_eq sequencer_def tickAt_def
      powerOn_def packet0_def command_def readDataFromXbee_def didMasterTimeout_def
      zigbee_timeout_def isMasterLaunchSet_def isCompressorOn_def writePORTD_def flips_sint
      hbEvents_def sampled_def setPressure1_def setPressure2_def bitSet_def bit_consts
      Pressure1Analog_def Pressure2Analog_def)

lemma armedState_eq:
  "armedState =
     \<lparr>pulse = False, timeSinceLastPulse = 0, timeSinceLastMasterSignal = 0,
      wasRocketLaunched = False, PORTD = 16,
      data = \<lparr>pressure1 = 512, pressure2 = 300, masterArm = True, masterLaunch = False,
        compressor = True, pad1Selected = True, pad2Selected = False, lastReceive = 0\<rparr>,
      trace = [AnalogRead 1 512, AnalogRead 2 300, PortD 16]\<rparr>"
  by (simp add: armedState_def requestClear_def state_eval tick_eval)

lemma firedState_eq:
  "firedState =
     \<lparr>pulse = False, timeSinceLastPulse = 0, timeSinceLastMasterSignal = 0,
      wasRocketLaunched = True, PORTD = 0,
      data = \<lparr>pressure1 = 40, pressure2 = 35, masterArm = True, masterLaunch = True,
        compressor = True, pad1Selected = True, pad2Selected = False, lastReceive = 10\<rparr>,
      trace = [AnalogRead 1 512, AnalogRead 2 300, PortD 16,
        AnalogRead 1 512, AnalogRead 2 300, PortD 0, PortD 64, Delay 100, PortD 0, PortD 0,
        AnalogRead 1 40, AnalogRead 2 35]\<rparr>"
  by (simp add: firedState_def armedState_eq requestSet_def state_eval tick_eval)

lemma heldState_eq:
  "heldState =
     firedState\<lparr>data := (data firedState)\<lparr>pressure1 := 512, pressure2 := 300\<rparr>,
       trace := trace firedState @ [AnalogRead 1 512, AnalogRead 2 300]\<rparr>"
  by (simp add: heldState_def firedState_eq state_eval tick_eval)

lemma lostState_eq:
  "lostState =
     firedState\<lparr>pulse := True, timeSinceLastPulse := 2000, PORTD := 8,
       data := (data firedState)\<lparr>pressure1 := 512, pressure2 := 300, masterArm := False,
         masterLaunch := False, compressor := False\<rparr>,
       trace := trace firedState @ [AnalogRead 1 512, AnalogRead 2 300,
         AnalogRead 1 512, AnalogRead 2 300,
         SendToMaster ((data firedState)\<lparr>pressure1 := 512, pressure2 := 300\<rparr>), PortD 8]\<rparr>"
  by (simp add: lostState_def heldState_eq) (simp add: firedState_eq state_eval tick_eval)

lemma clearedState_eq:
  "clearedState =
     lostState\<lparr>wasRocketLaunched := False,
       data := (data lostState)\<lparr>masterArm := True, lastReceive := 2010\<rparr>,
       trace := trace lostState @ [AnalogRead 1 512, AnalogRead 2 300, PortD 8]\<rparr>"
  by (simp add: clearedState_def lostState_eq) (simp add: firedState_eq state_eval tick_eval)

lemma seen_requestClear:
  "timedOut requestClear (powerOn packet0) = False"
  "launchSeen requestClear (powerOn packet0) = False"
  by (simp_all add: requestClear_def powerOn_def packet0_def tick_eval)

lemma seen_requestSet:
  "timedOut requestSet armedState = False"
  "launchSeen requestSet armedState = True"
  by (simp_all add: armedState_eq requestSet_def tick_eval)

lemma seen_held:
  "timedOut (tickAt 20 None) firedState = False"
  "launchSeen (tickAt 20 None) firedState = True"
  by (simp_all add: firedState_eq tick_eval)

lemma seen_lost:
  "timedOut (tickAt 2000 None) heldState = True"
  by (simp add: heldState_eq) (simp add: firedState_eq tick_eval)

lemma seen_cleared:
  "timedOut (tickAt 2010 (Some (command False False True False))) lostState = False"
  "launchSeen (tickAt 2010 (Some (command False False True False))) lostState = False"
  by (simp_all add: lostState_eq) (simp_all add: firedState_eq tick_eval)

lemma seen_again:
  "timedOut (tickAt 2020 (Some (command True False True False))) clearedState = False"
  "launchSeen (tickAt 2020 (Some (command True False True False))) clearedState = True"
  by (simp_all add: clearedState_eq lostState_eq) (simp_all add: firedState_eq tick_eval)

lemma idleState_eq:
  "idleState =
     clearedState\<lparr>trace := trace clearedState @ [AnalogRead 1 512, AnalogRead 2 300, PortD 8]\<rparr>"
  by (simp add: idleState_def clearedState_eq lostState_eq)
    (simp add: firedState_eq state_eval tick_eval)

lemma refiredState_eq:
  "refiredState =
     idleState\<lparr>wasRocketLaunched := True,
       data := (data idleState)\<lparr>pressure1 := 40, pressure2 := 35, masterLaunch := True,
         lastReceive := 2020\<rparr>,
       trace := trace idleState @ [AnalogRead 1 512, AnalogRead 2 300, PortD 8, PortD 72,
         Delay 100, PortD 8, PortD 8, AnalogRead 1 40, AnalogRead 2 35]\<rparr>"
  by (simp add: refiredState_def relaunch_def idleState_eq clearedState_eq lostState_eq)
    (simp add: firedState_eq state_eval tick_eval)

lemma seen_idle:
  "timedOut (tickAt 2015 None) clearedState = False"
  "launchSeen (tickAt 2015 None) clearedState = False"
  by (simp_all add: clearedState_eq lostState_eq) (simp_all add: firedState_eq tick_eval)

lemma seen_relaunch:
  "timedOut relaunch idleState = False"
  "launchSeen relaunch idleState = True"
  by (simp_all add: relaunch_def idleState_eq clearedState_eq lostState_eq)
    (simp_all add: firedState_eq tick_eval)

lemma seen_reheld:
  "timedOut (tickAt 2030 None) refiredState = False"
  "launchSeen (tickAt 2030 None) refiredState = True"
  by (simp_all add: refiredState_eq idleState_eq clearedState_eq lostState_eq)
    (simp_all add: firedState_eq tick_eval)

lemma lostState_port: "PORTD lostState = 8" "PORTD idleState = 8"
  by (simp_all add: idleState_eq clearedState_eq lostState_eq)

section \<open>Fail-safe on communication timeout (C1)\<close>

text \<open>
  A timed-out tick writes the port once, for the error LED: every other output keeps its
  level, the compressor output included, and no valve output is switched on.
\<close>

lemma timeout_tick_port:
  "timedOut i s \<Longrightarrow>
   bit (PORTD (updateData i s)) n =
     (if n = ErrorLedBit then pulse (updateData i s) else bit (PORTD s) n)"
  by (auto simp add: PORTD_updateData pulse_updateData bit_bitSet bit_bitClear bit_consts
      dest: bit_imp_le_length)

lemma timeout_tick_valves:
  "timedOut i s \<Longrightarrow> valvesClosed (PORTD s) \<Longrightarrow>
   list_all valvesClosed (portValues (tickEvents i s))"
  by (simp add: quiet_tick_ports fires_def)

text \<open>
  Claim C1 fails on the code. From power-on, a first tick receives a command that requests
  the compressor and drives the compressor output on; the second tick, 2000 time-units
  later with nothing received, is timed out. It clears the compressor flag of the packet
  and writes the error LED, and the compressor output is still on after it.
\<close>

theorem timeout_leaves_compressor_output_on:
  "timedOut (tickAt 2000 None)
     (updateData (tickAt 0 (Some (command False True False False))) (powerOn packet0)) \<and>
   \<not> isCompressorOn (data (loop [tickAt 0 (Some (command False True False False)),
        tickAt 2000 None] (powerOn packet0))) \<and>
   bit (PORTD (loop [tickAt 0 (Some (command False True False False)), tickAt 2000 None]
        (powerOn packet0))) CompressorBit"
  by (simp add: updateData_polled polled_eq sequencer_def timedOut_def tickAt_def powerOn_def
      command_def readDataFromXbee_def didMasterTimeout_def zigbee_timeout_def
      isMasterLaunchSet_def isCompressorOn_def compressorOff_def masterArmIsOff_def
      masterLaunchClear_def blinkErrorLed_def writePORTD_def flips_sint
      sampled_def setPressure1_def setPressure2_def bit_bitSet bit_bitClear bit_consts)

section \<open>Debounce of the launch request (C2)\<close>

text \<open>
  Claim C2. Take a state in which the request is not latched: power-on, or the state after
  a tick that was not timed out and observed the launch request clear (whatever came
  before that tick, a firing or a timeout included), followed by any number of ticks that
  are timed out or observe the request clear. From there, a run of at least two
  consecutive ticks that are not timed out and all observe the request set executes the
  firing sequence exactly once, in its first tick: the ticks after the first write
  nothing to the port, and over the whole run the valve output of each pad is switched on
  once if the pad is selected (in the packet after the poll of the first tick) and never
  if it is not.
\<close>

theorem launch_request_held_fires_once:
  assumes "origin = powerOn d \<or>
           (origin = updateData i0 s0 \<and> observed [i0] s0 = [(False, False)] \<and>
            valvesClosed (PORTD s0))"
    and "list_all (\<lambda>ob. fst ob \<or> \<not> snd ob) (observed quiet origin)"
    and "s = loop quiet origin"
    and "list_all (\<lambda>ob. \<not> fst ob \<and> snd ob) (observed run s)"
    and "2 \<le> length run"
  shows "firings (loopEvents run s) = 1 \<and>
         fires (hd run) s \<and>
         portValues (loopEvents (tl run) (updateData (hd run) s)) = [] \<and>
         openings Pad1LaunchBit (PORTD s) (portValues (loopEvents run s)) =
           (if isPad1Selected (data (polled (hd run) s)) then 1 else 0) \<and>
         openings Pad2LaunchBit (PORTD s) (portValues (loopEvents run s)) =
           (if isPad2Selected (data (polled (hd run) s)) then 1 else 0)"
proof -
  from assms(1) have start: "\<not> wasRocketLaunched origin \<and> valvesClosed (PORTD origin)"
  proof
    assume "origin = powerOn d"
    then show ?thesis by (simp add: powerOn_def valvesClosed_def)
  next
    assume after: "origin = updateData i0 s0 \<and> observed [i0] s0 = [(False, False)] \<and>
            valvesClosed (PORTD s0)"
    then have "\<not> timedOut i0 s0" and "\<not> launchSeen i0 s0"
      by simp_all
    then have "\<not> wasRocketLaunched (updateData i0 s0)"
      by (rule latch_clear_tick)
    moreover from after have "valvesClosed (PORTD (updateData i0 s0))"
      by (simp add: valvesClosed_updateData)
    ultimately show ?thesis using after by simp
  qed
  then have "\<not> wasRocketLaunched origin" and "valvesClosed (PORTD origin)"
    by simp_all
  from quiet_run [OF this assms(2)] assms(3)
  have clear: "\<not> wasRocketLaunched s" and closed: "valvesClosed (PORTD s)"
    by simp_all
  from assms(5) have "run \<noteq> []" by auto
  from held_run_actuates_once [OF clear closed assms(4) this] show ?thesis
    by simp
qed

theorem launch_request_held_fires_once_witness:
  "clearedState = updateData (tickAt 2010 (Some (command False False True False))) lostState \<and>
   observed [tickAt 2010 (Some (command False False True False))] lostState = [(False, False)] \<and>
   valvesClosed (PORTD lostState) \<and>
   observed [tickAt 2015 None] clearedState = [(False, False)] \<and>
   idleState = loop [tickAt 2015 None] clearedState \<and>
   observed [relaunch, tickAt 2030 None] idleState = [(False, True), (False, True)] \<and>
   firings (loopEvents [relaunch, tickAt 2030 None] idleState) = 1 \<and>
   portValues (loopEvents [relaunch, tickAt 2030 None] idleState) = [8, 72, 8, 8] \<and>
   openings Pad1LaunchBit (PORTD idleState)
     (portValues (loopEvents [relaunch, tickAt 2030 None] idleState)) = 1 \<and>
   openings Pad2LaunchBit (PORTD idleState)
     (portValues (loopEvents [relaunch, tickAt 2030 None] idleState)) = 0"
proof -
  have o0: "observed [tickAt 2010 (Some (command False False True False))] lostState =
      [(False, False)]"
    by (simp add: seen_cleared)
  have c0: "valvesClosed (PORTD lostState)"
    by (simp add: lostState_port valvesClosed_def bit_consts)
  have h1: "clearedState = powerOn packet0 \<or>
      (clearedState = updateData (tickAt 2010 (Some (command False False True False))) lostState \<and>
       observed [tickAt 2010 (Some (command False False True False))] lostState = [(False, False)] \<and>
       valvesClosed (PORTD lostState))"
    using o0 c0 by (simp add: clearedState_def)
  have o1: "observed [tickAt 2015 None] clearedState = [(False, False)]"
    by (simp add: seen_idle)
  have h2: "list_all (\<lambda>ob. fst ob \<or> \<not> snd ob) (observed [tickAt 2015 None] clearedState)"
    by (simp only: o1) simp
  have h3: "idleState = loop [tickAt 2015 None] clearedState"
    by (simp add: idleState_def)
  have o2: "observed [relaunch, tickAt 2030 None] idleState = [(False, True), (False, True)]"
    by (simp add: refiredState_def [symmetric] seen_relaunch seen_reheld)
  have h4: "list_all (\<lambda>ob. \<not> fst ob \<and> snd ob) (observed [relaunch, tickAt 2030 None] idleState)"
    by (simp only: o2) simp
  have h5: "2 \<le> length [relaunch, tickAt 2030 None]"
    by simp
  have sel: "isPad1Selected (data (polled relaunch idleState)) \<and>
      \<not> isPad2Selected (data (polled relaunch idleState))"
    by (simp add: polled_selection)
      (simp add: relaunch_def tickAt_def command_def readDataFromXbee_def isPad1Selected_def
        isPad2Selected_def)
  have ports: "portValues (loopEvents [relaunch, tickAt 2030 None] idleState) = [8, 72, 8, 8]"
    using launch_request_held_fires_once [OF h1 h2 h3 h4 h5]
    by (simp add: portValues_append tickEvents_def refiredState_def [symmetric])
      (simp add: refiredState_eq)
  from o0 c0 o1 h3 o2 sel ports launch_request_held_fires_once [OF h1 h2 h3 h4 h5]
  show ?thesis
    by (simp add: clearedState_def)
qed

section \<open>Compressor off before the valves open (C3)\<close>

text \<open>
  Claim C3. In a tick that executes the firing sequence, the first port write of the tick
  switches the compressor output off and nothing else; every port value written in the
  tick has the compressor output off; and every write that turns a valve output on finds
  the compressor output off already.
\<close>

theorem compressor_off_before_valves_open:
  assumes "fires i s"
  shows "hd (portValues (tickEvents i s)) = bitClear (PORTD s) CompressorBit \<and>
         list_all (\<lambda>w. \<not> bit w CompressorBit) (portValues (tickEvents i s)) \<and>
         valvesOpenAfterCompressorOff (PORTD s) (portValues (tickEvents i s))"
proof -
  have ports: "portValues (tickEvents i s) =
      portValues (launchEvents i (PORTD s) (isPad1Selected (data (polled i s)))
        (isPad2Selected (data (polled i s))))"
    using assms by (simp add: firing_tick_events portValues_append hbEvents_ports)
  have first: "hd (portValues (tickEvents i s)) = bitClear (PORTD s) CompressorBit"
    by (simp add: ports launchEvents_ports)
  from first show ?thesis
    by (simp only: ports launch_order launch_compressor_off simp_thms)
qed

theorem compressor_off_before_valves_open_witness:
  "fires (tickAt 10 (Some (command True True True True))) compressorRunning \<and>
   PORTD compressorRunning = 16 \<and>
   portValues (tickEvents (tickAt 10 (Some (command True True True True))) compressorRunning) =
     [0, 64, 96, 32, 0] \<and>
   valvesOpenAfterCompressorOff (PORTD compressorRunning)
     (portValues (tickEvents (tickAt 10 (Some (command True True True True))) compressorRunning))"
proof -
  have f: "fires (tickAt 10 (Some (command True True True True))) compressorRunning"
    by (simp add: compressorRunning_eq tick_eval)
  have p: "portValues (tickEvents (tickAt 10 (Some (command True True True True)))
      compressorRunning) = [0, 64, 96, 32, 0]"
    by (simp add: compressorRunning_eq tick_eval)
  from f p compressor_off_before_valves_open [OF f] show ?thesis
    by (simp add: compressorRunning_eq)
qed

section \<open>Pad selection (C4)\<close>

text \<open>
  Claim C4, as amended. In a firing tick that starts with both valve outputs off, the
  pad-1 valve output is switched on if and only if pad 1 is selected in the packet as it
  stands after the inbound poll of that tick, and likewise the pad-2 valve output, each
  independently of the other. When the poll decodes no command in the firing tick, that
  is the selection the packet had at the start of the tick.
\<close>

theorem pad_selection_fidelity:
  assumes "fires i s" and "valvesClosed (PORTD s)"
  shows "pad1Opened (tickEvents i s) =
           isPad1Selected (readDataFromXbee (received i) (millisRx i) (data s)) \<and>
         pad2Opened (tickEvents i s) =
           isPad2Selected (readDataFromXbee (received i) (millisRx i) (data s)) \<and>
         (received i = None \<longrightarrow>
            pad1Opened (tickEvents i s) = isPad1Selected (data s) \<and>
            pad2Opened (tickEvents i s) = isPad2Selected (data s))"
  using pads_opened_firing [OF assms]
  by (simp add: polled_selection readDataFromXbee_def)

theorem pad_selection_fidelity_witness:
  "fires (tickAt 10 (Some (command True True True True))) compressorRunning \<and>
   valvesClosed (PORTD compressorRunning) \<and>
   pad1Opened (tickEvents (tickAt 10 (Some (command True True True True))) compressorRunning) \<and>
   pad2Opened (tickEvents (tickAt 10 (Some (command True True True True))) compressorRunning)"
proof -
  have f: "fires (tickAt 10 (Some (command True True True True))) compressorRunning"
    by (simp add: compressorRunning_eq tick_eval)
  have c: "valvesClosed (PORTD compressorRunning)"
    by (simp add: compressorRunning_eq valvesClosed_def bit_consts)
  from f c pad_selection_fidelity [OF f c] show ?thesis
    by (simp add: tickAt_def command_def readDataFromXbee_def isPad1Selected_def
        isPad2Selected_def)
qed

text \<open>
  Claim C4 as stated fails when the command that requests the launch also changes the
  selection: at power-on pad 1 is not selected, the first tick decodes a command with the
  launch request and pad 1, and the firing of that tick switches the pad-1 valve on.
\<close>

theorem pad_selection_read_after_poll:
  "fires (tickAt 10 (Some (command True False True False))) (powerOn packet0) \<and>
   valvesClosed (PORTD (powerOn packet0)) \<and>
   \<not> isPad1Selected (data (powerOn packet0)) \<and>
   pad1Opened (tickEvents (tickAt 10 (Some (command True False True False))) (powerOn packet0))"
  by (simp add: tick_eval powerOn_def packet0_def pad1Opened_def valvesClosed_def)

section \<open>Hold, close and second sample (C5)\<close>

text \<open>
  Claim C5. A firing tick begins with the once-per-tick sample of both chambers. From the
  hold on its events are exactly: the blocking delay of 100 time-units, the write that
  switches the pad-1 valve output off, the write that switches the pad-2 valve output off
  (the port value the tick ends with, both valve outputs off), and the second sample of
  chamber 1 and of chamber 2, which are the pressures the packet holds after the tick.
  The port value held during the delay has each valve output on exactly when its pad is
  selected (for a tick that starts with both valve outputs off). Each chamber is sampled
  exactly twice in the tick.
\<close>

theorem firing_holds_closes_and_resamples:
  assumes "fires i s"
  shows "take 2 (tickEvents i s) =
           [AnalogRead Pressure1Analog (adc1 i), AnalogRead Pressure2Analog (adc2 i)] \<and>
         fromHold (tickEvents i s) =
           [Delay 100, PortD (bitClear (heldPort i s) Pad1LaunchBit),
            PortD (PORTD (updateData i s)),
            AnalogRead Pressure1Analog (adc1Post i), AnalogRead Pressure2Analog (adc2Post i)] \<and>
         valvesClosed (PORTD (updateData i s)) \<and>
         (valvesClosed (PORTD s) \<longrightarrow>
            bit (heldPort i s) Pad1LaunchBit = isPad1Selected (data (polled i s)) \<and>
            bit (heldPort i s) Pad2LaunchBit = isPad2Selected (data (polled i s))) \<and>
         samples (tickEvents i s) =
           [(Pressure1Analog, adc1 i), (Pressure2Analog, adc2 i),
            (Pressure1Analog, adc1Post i), (Pressure2Analog, adc2Post i)] \<and>
         pressure1 (data (updateData i s)) = adc1Post i \<and>
         pressure2 (data (updateData i s)) = adc2Post i"
proof -
  have start: "take 2 (tickEvents i s) =
      [AnalogRead Pressure1Analog (adc1 i), AnalogRead Pressure2Analog (adc2 i)]"
    by (simp add: tickEvents_eq hbEvents_def)
  have tail: "fromHold (tickEvents i s) =
      [Delay 100, PortD (bitClear (heldPort i s) Pad1LaunchBit),
       PortD (PORTD (updateData i s)),
       AnalogRead Pressure1Analog (adc1Post i), AnalogRead Pressure2Analog (adc2Post i)]"
    using assms by (simp add: fromHold_firing PORTD_firing)
  have closed: "valvesClosed (PORTD (updateData i s))"
    using assms by (simp add: PORTD_firing valvesClosed_def bit_bitClear)
  have held: "valvesClosed (PORTD s) \<longrightarrow>
      bit (heldPort i s) Pad1LaunchBit = isPad1Selected (data (polled i s)) \<and>
      bit (heldPort i s) Pad2LaunchBit = isPad2Selected (data (polled i s))"
    using assms by (simp add: heldPort_firing heldPort_valves)
  from start tail closed held samples_firing [OF assms] data_firing [OF assms]
  show ?thesis by blast
qed

theorem firing_holds_closes_and_resamples_witness:
  "fires (tickAt 10 (Some (command True True True False))) compressorRunning \<and>
   valvesClosed (PORTD compressorRunning) \<and>
   tickEvents (tickAt 10 (Some (command True True True False))) compressorRunning =
     [AnalogRead 1 512, AnalogRead 2 300, PortD 0, PortD 64, Delay 100, PortD 0, PortD 0,
      AnalogRead 1 40, AnalogRead 2 35] \<and>
   heldPort (tickAt 10 (Some (command True True True False))) compressorRunning = 64 \<and>
   fromHold (tickEvents (tickAt 10 (Some (command True True True False))) compressorRunning) =
     [Delay 100, PortD 0, PortD 0, AnalogRead 1 40, AnalogRead 2 35] \<and>
   pressure1 (data (updateData (tickAt 10 (Some (command True True True False)))
     compressorRunning)) = 40"
proof -
  have f: "fires (tickAt 10 (Some (command True True True False))) compressorRunning"
    by (simp add: compressorRunning_eq tick_eval)
  have c: "valvesClosed (PORTD compressorRunning)"
    by (simp add: compressorRunning_eq valvesClosed_def bit_consts)
  have e: "tickEvents (tickAt 10 (Some (command True True True False))) compressorRunning =
     [AnalogRead 1 512, AnalogRead 2 300, PortD 0, PortD 64, Delay 100, PortD 0, PortD 0,
      AnalogRead 1 40, AnalogRead 2 35]"
    by (simp add: compressorRunning_eq tick_eval)
  have h: "heldPort (tickAt 10 (Some (command True True True False))) compressorRunning = 64"
    by (simp add: heldPort_def beforeHold_def e)
  from f c e h firing_holds_closes_and_resamples [OF f] show ?thesis
    by (simp add: fromHold_def tickAt_def)
qed

section \<open>Re-arming (C6)\<close>

text \<open>
  Claim C6, as amended. After a firing tick the latch is set. Through any run of ticks
  that are timed out or observe the launch request still set, the latch stays set, the
  firing sequence is not executed and no port value with a valve output on is written.
  A following tick that is not timed out and observes the request clear does not fire
  and resets the latch. Through any further ticks that are timed out or observe the
  request clear, nothing fires and the latch stays clear. The first tick after them that
  is not timed out and observes the request set executes the firing sequence once and
  switches the valve output of each selected pad on once.
\<close>

theorem latch_blocks_until_request_cleared:
  assumes "fires i s"
    and "s1 = updateData i s"
    and "list_all (\<lambda>ob. fst ob \<or> snd ob) (observed hold s1)"
    and "s2 = loop hold s1"
    and "observed [iF] s2 = [(False, False)]"
    and "s3 = updateData iF s2"
    and "list_all (\<lambda>ob. fst ob \<or> \<not> snd ob) (observed idle s3)"
    and "s4 = loop idle s3"
    and "observed [iT] s4 = [(False, True)]"
  shows "wasRocketLaunched s1 \<and>
         wasRocketLaunched s2 \<and>
         firings (loopEvents hold s1) = 0 \<and>
         list_all valvesClosed (portValues (loopEvents hold s1)) \<and>
         firings (tickEvents iF s2) = 0 \<and>
         list_all valvesClosed (portValues (tickEvents iF s2)) \<and>
         \<not> wasRocketLaunched s3 \<and>
         firings (loopEvents idle s3) = 0 \<and>
         list_all valvesClosed (portValues (loopEvents idle s3)) \<and>
         \<not> wasRocketLaunched s4 \<and>
         fires iT s4 \<and>
         firings (tickEvents iT s4) = 1 \<and>
         openings Pad1LaunchBit (PORTD s4) (portValues (tickEvents iT s4)) =
           (if isPad1Selected (data (polled iT s4)) then 1 else 0) \<and>
         openings Pad2LaunchBit (PORTD s4) (portValues (tickEvents iT s4)) =
           (if isPad2Selected (data (polled iT s4)) then 1 else 0)"
proof -
  from firing_tick_latches [OF assms(1)] assms(2)
  have latch1: "wasRocketLaunched s1" and closed1: "valvesClosed (PORTD s1)"
    by simp_all
  from blocked_run [OF latch1 closed1 assms(3)] assms(4)
  have latch2: "wasRocketLaunched s2"
    and hold0: "firings (loopEvents hold s1) = 0"
    and holdPorts: "list_all valvesClosed (portValues (loopEvents hold s1))"
    by simp_all
  from valvesClosed_loop [OF closed1] assms(4) have closed2: "valvesClosed (PORTD s2)"
    by simp
  from assms(5) have clear: "\<not> timedOut iF s2" "\<not> launchSeen iF s2"
    by simp_all
  then have quietF: "\<not> fires iF s2"
    by (simp add: fires_def)
  then have clear0: "firings (tickEvents iF s2) = 0"
    by (simp add: firings_tick)
  have clearPorts: "list_all valvesClosed (portValues (tickEvents iF s2))"
    using closed2 quietF by (rule quiet_tick_ports)
  from clear assms(6) have latch3: "\<not> wasRocketLaunched s3"
    by (simp add: latch_clear_tick)
  from closed2 assms(6) have closed3: "valvesClosed (PORTD s3)"
    by (simp add: valvesClosed_updateData)
  from quiet_run [OF latch3 closed3 assms(7)] assms(8)
  have latch4: "\<not> wasRocketLaunched s4" and closed4: "valvesClosed (PORTD s4)"
    and idle0: "firings (loopEvents idle s3) = 0"
    and idlePorts: "list_all valvesClosed (portValues (loopEvents idle s3))"
    by simp_all
  from assms(9) latch4 have refire: "fires iT s4"
    by (simp add: fires_def)
  then have once: "firings (tickEvents iT s4) = 1"
    by (simp add: firings_tick)
  note opens = openings_firing [OF refire closed4]
  from latch1 latch2 hold0 holdPorts clear0 clearPorts latch3 idle0 idlePorts latch4 refire
    once opens
  show ?thesis by simp
qed

theorem latch_blocks_until_request_cleared_witness:
  "fires requestSet armedState \<and>
   firedState = updateData requestSet armedState \<and>
   observed [tickAt 20 None, tickAt 2000 None] firedState = [(False, True), (True, True)] \<and>
   lostState = loop [tickAt 20 None, tickAt 2000 None] firedState \<and>
   observed [tickAt 2010 (Some (command False False True False))] lostState = [(False, False)] \<and>
   clearedState = updateData (tickAt 2010 (Some (command False False True False))) lostState \<and>
   observed [tickAt 2015 None] clearedState = [(False, False)] \<and>
   idleState = loop [tickAt 2015 None] clearedState \<and>
   observed [relaunch] idleState = [(False, True)] \<and>
   firings (loopEvents [tickAt 20 None, tickAt 2000 None] firedState) = 0 \<and>
   fires relaunch idleState \<and>
   firings (tickEvents relaunch idleState) = 1 \<and>
   openings Pad1LaunchBit (PORTD idleState) (portValues (tickEvents relaunch idleState)) = 1 \<and>
   openings Pad2LaunchBit (PORTD idleState) (portValues (tickEvents relaunch idleState)) = 0"
proof -
  have f: "fires requestSet armedState"
    by (simp add: fires_def seen_requestSet) (simp add: armedState_eq)
  have s1: "firedState = updateData requestSet armedState"
    by (simp add: firedState_def)
  have lostSeen: "launchSeen (tickAt 2000 None) heldState = True"
    by (simp add: heldState_eq) (simp add: firedState_eq tick_eval)
  have o1: "observed [tickAt 20 None, tickAt 2000 None] firedState = [(False, True), (True, True)]"
    by (simp add: heldState_def [symmetric] seen_held seen_lost lostSeen)
  have h1: "list_all (\<lambda>ob. fst ob \<or> snd ob) (observed [tickAt 20 None, tickAt 2000 None] firedState)"
    by (simp only: o1) simp
  have s2: "lostState = loop [tickAt 20 None, tickAt 2000 None] firedState"
    by (simp add: lostState_def heldState_def)
  have o2: "observed [tickAt 2010 (Some (command False False True False))] lostState =
      [(False, False)]"
    by (simp add: seen_cleared)
  have s3: "clearedState = updateData (tickAt 2010 (Some (command False False True False))) lostState"
    by (simp add: clearedState_def)
  have o3: "observed [tickAt 2015 None] clearedState = [(False, False)]"
    by (simp add: seen_idle)
  have h3: "list_all (\<lambda>ob. fst ob \<or> \<not> snd ob) (observed [tickAt 2015 None] clearedState)"
    by (simp only: o3) simp
  have s4: "idleState = loop [tickAt 2015 None] clearedState"
    by (simp add: idleState_def)
  have o4: "observed [relaunch] idleState = [(False, True)]"
    by (simp add: seen_relaunch)
  have sel: "isPad1Selected (data (polled relaunch idleState)) \<and>
      \<not> isPad2Selected (data (polled relaunch idleState))"
    by (simp add: polled_selection)
      (simp add: relaunch_def tickAt_def command_def readDataFromXbee_def isPad1Selected_def
        isPad2Selected_def)
  from f s1 o1 s2 o2 s3 o3 s4 o4 sel
    latch_blocks_until_request_cleared [OF f s1 h1 s2 o2 s3 h3 s4 o4]
  show ?thesis by simp
qed

text \<open>
  Claim C6 as stated fails when the request is cleared by a timeout and not by the
  master: after a firing the request is still set; the link is lost and the timed-out
  tick clears the request in the packet; a fresh command sets it again, in a tick that is
  not timed out. The request has gone from set to clear to set, the latch is still set
  and the tick does not fire.
\<close>

theorem request_cleared_by_timeout_does_not_rearm:
  "fires requestSet armedState \<and>
   isMasterLaunchSet (data heldState) \<and>
   timedOut (tickAt 2000 None) heldState \<and>
   \<not> isMasterLaunchSet (data lostState) \<and>
   \<not> timedOut (tickAt 2010 (Some (command True False True False))) lostState \<and>
   launchSeen (tickAt 2010 (Some (command True False True False))) lostState \<and>
   wasRocketLaunched lostState \<and>
   \<not> fires (tickAt 2010 (Some (command True False True False))) lostState \<and>
   firings (tickEvents (tickAt 2010 (Some (command True False True False))) lostState) = 0 \<and>
   portValues (tickEvents (tickAt 2010 (Some (command True False True False))) lostState) = []"
proof -
  have f: "fires requestSet armedState"
    by (simp add: fires_def seen_requestSet) (simp add: armedState_eq)
  have flags: "isMasterLaunchSet (data heldState) \<and> \<not> isMasterLaunchSet (data lostState) \<and>
      wasRocketLaunched lostState"
    by (simp add: lostState_eq heldState_eq isMasterLaunchSet_def) (simp add: firedState_eq)
  have seen: "\<not> timedOut (tickAt 2010 (Some (command True False True False))) lostState \<and>
      launchSeen (tickAt 2010 (Some (command True False True False))) lostState"
    by (simp add: lostState_eq) (simp add: firedState_eq tick_eval)
  from flags seen
  have quiet: "\<not> fires (tickAt 2010 (Some (command True False True False))) lostState"
    by (simp add: fires_def)
  from flags seen
  have ports: "portValues (tickEvents (tickAt 2010 (Some (command True False True False)))
      lostState) = []"
    by (simp add: tickEvents_eq portValues_append hbEvents_ports decisionEvents_def)
  from f flags seen quiet ports show ?thesis
    by (simp add: firings_tick seen_lost)
qed

section \<open>The LEDs and the heartbeat phase (C7)\<close>




section \<open>The heartbeat (C8)\<close>

text \<open>
  Claim C8, as amended. In every tick the heartbeat phase flips exactly when the elapsed
  time \<open>millis() - timeSinceLastPulse\<close>, read as a signed 32-bit number, is strictly
  greater than the half-period of 100; a qualifying tick flips the phase once and restarts
  the interval at the current clock, however long the tick was delayed.
\<close>

theorem heartbeat_flip_rule:
  "(pulse (updateData i s) \<noteq> pulse s) = (100 < sint (millis1 i - timeSinceLastPulse s)) \<and>
   timeSinceLastPulse (updateData i s) =
     (if 100 < sint (millis1 i - timeSinceLastPulse s) then millis2 i else timeSinceLastPulse s)"
  by (simp add: pulse_updateData timeSince_updateData flips_sint)

theorem heartbeat_flip_rule_witness:
  "pulse (updateData (tickAt 101 None) (powerOn packet0)) \<and>
   timeSinceLastPulse (updateData (tickAt 101 None) (powerOn packet0)) = 101 \<and>
   pulse (updateData (tickAt 1000 None) (powerOn packet0)) \<and>
   timeSinceLastPulse (updateData (tickAt 1000 None) (powerOn packet0)) = 1000 \<and>
   pulse (updateData (tickAt 1010 None) (updateData (tickAt 1000 None) (powerOn packet0)))"
  using heartbeat_flip_rule [of "tickAt 101 None" "powerOn packet0"]
    heartbeat_flip_rule [of "tickAt 1000 None" "powerOn packet0"]
    heartbeat_flip_rule [of "tickAt 1010 None" "updateData (tickAt 1000 None) (powerOn packet0)"]
  by (simp add: pulse_updateData timeSince_updateData flips_sint tickAt_def powerOn_def)

text \<open>
  Claim C8 as stated fails when the elapsed time is exactly the half-period: 100 units
  after power-on the phase is left as it was.
\<close>

theorem heartbeat_no_flip_at_half_period:
  "sint (millis1 (tickAt 100 None) - timeSinceLastPulse (powerOn packet0)) = 100 \<and>
   pulse (updateData (tickAt 100 None) (powerOn packet0)) = pulse (powerOn packet0)"
  by (simp add: pulse_updateData flips_sint tickAt_def powerOn_def)

section \<open>Telemetry (C9)\<close>

text \<open>
  Claim C9. A tick hands a telemetry packet to the radio exactly when the heartbeat phase
  goes from off to on in that tick, and then exactly one; the tick that follows a sending
  tick sends none; and a packet that is sent comes third in the tick, right after the two
  analog samples of the same tick, and carries those two samples.
\<close>

theorem telemetry_on_rising_edge:
  "(telemetry (tickEvents i s) \<noteq> []) = (\<not> pulse s \<and> pulse (updateData i s)) \<and>
   length (telemetry (tickEvents i s)) \<le> 1 \<and>
   (telemetry (tickEvents i s) \<noteq> [] \<longrightarrow> telemetry (tickEvents j (updateData i s)) = []) \<and>
   list_all (\<lambda>d. pressure1 d = adc1 i \<and> pressure2 d = adc2 i) (telemetry (tickEvents i s)) \<and>
   (telemetry (tickEvents i s) \<noteq> [] \<longrightarrow>
      take 3 (tickEvents i s) =
        [AnalogRead Pressure1Analog (adc1 i), AnalogRead Pressure2Analog (adc2 i),
         SendToMaster (hd (telemetry (tickEvents i s)))])"
proof -
  have edge: "(telemetry (tickEvents i s) \<noteq> []) = (\<not> pulse s \<and> pulse (updateData i s))"
    by (simp add: telemetry_tick pulse_updateData)
  have once: "length (telemetry (tickEvents i s)) \<le> 1"
    by (simp add: telemetry_tick)
  have next_silent:
    "telemetry (tickEvents i s) \<noteq> [] \<longrightarrow> telemetry (tickEvents j (updateData i s)) = []"
    by (simp add: telemetry_tick pulse_updateData)
  have fresh:
    "list_all (\<lambda>d. pressure1 d = adc1 i \<and> pressure2 d = adc2 i) (telemetry (tickEvents i s))"
    by (simp add: telemetry_tick sampled_pressures)
  have third:
    "telemetry (tickEvents i s) \<noteq> [] \<longrightarrow>
      take 3 (tickEvents i s) =
        [AnalogRead Pressure1Analog (adc1 i), AnalogRead Pressure2Analog (adc2 i),
         SendToMaster (hd (telemetry (tickEvents i s)))]"
  proof
    assume sent: "telemetry (tickEvents i s) \<noteq> []"
    then have rising: "flips i s \<and> \<not> pulse s"
      by (simp add: telemetry_tick split: if_splits)
    then have "hd (telemetry (tickEvents i s)) = sampled i (data s)"
      by (simp add: telemetry_tick)
    moreover from rising have "take 3 (tickEvents i s) =
        [AnalogRead Pressure1Analog (adc1 i), AnalogRead Pressure2Analog (adc2 i),
         SendToMaster (sampled i (data s))]"
      by (simp add: tickEvents_eq hbEvents_def)
    ultimately show "take 3 (tickEvents i s) =
        [AnalogRead Pressure1Analog (adc1 i), AnalogRead Pressure2Analog (adc2 i),
         SendToMaster (hd (telemetry (tickEvents i s)))]"
      by simp
  qed
  from edge once next_silent fresh third show ?thesis by blast
qed

theorem telemetry_on_rising_edge_witness:
  "telemetry (tickEvents (tickAt 200 None) (powerOn packet0)) \<noteq> [] \<and>
   telemetry (tickEvents (tickAt 210 None) (updateData (tickAt 200 None) (powerOn packet0))) = [] \<and>
   take 3 (tickEvents (tickAt 200 None) (powerOn packet0)) =
     [AnalogRead Pressure1Analog 512, AnalogRead Pressure2Analog 300,
      SendToMaster (packet0\<lparr>pressure1 := 512, pressure2 := 300\<rparr>)]"
  using telemetry_on_rising_edge [of "tickAt 200 None" "powerOn packet0" "tickAt 210 None"]
  by (simp add: telemetry_tick flips_sint tickAt_def powerOn_def sampled_def setPressure1_def
      setPressure2_def)

section \<open>Valve outputs at the end of every tick (C10)\<close>

text \<open>
  Claim C10. In every state the sketch reaches from power-on both pad valve outputs are
  off, and a tick that does not execute the firing sequence writes no port value with a
  valve output on; a firing tick ends with both valve outputs off whatever it opened.
\<close>

theorem valves_closed_between_ticks:
  "valvesClosed (PORTD (loop ins (powerOn d))) \<and>
   (\<not> fires i (loop ins (powerOn d)) \<longrightarrow>
      list_all valvesClosed (portValues (tickEvents i (loop ins (powerOn d))))) \<and>
   (fires j s \<longrightarrow> valvesClosed (PORTD (updateData j s)))"
proof -
  have closed: "valvesClosed (PORTD (loop ins (powerOn d)))"
    by (rule valvesClosed_loop) (rule valvesClosed_powerOn)
  have quiet: "\<not> fires i (loop ins (powerOn d)) \<longrightarrow>
      list_all valvesClosed (portValues (tickEvents i (loop ins (powerOn d))))"
    using closed by (simp add: quiet_tick_ports)
  have fired: "fires j s \<longrightarrow> valvesClosed (PORTD (updateData j s))"
    by (simp add: PORTD_updateData fires_def launchPort_def valvesClosed_def bit_bitClear
        bit_consts Let_def)
  from closed quiet fired show ?thesis by blast
qed

theorem valves_closed_between_ticks_witness:
  "\<not> fires (tickAt 20 None) (loop [tickAt 10 (Some (command True True True True))] (powerOn packet0)) \<and>
   list_all valvesClosed (portValues (tickEvents (tickAt 20 None)
      (loop [tickAt 10 (Some (command True True True True))] (powerOn packet0)))) \<and>
   fires (tickAt 10 (Some (command True True True True))) (powerOn packet0) \<and>
   valvesClosed (PORTD (updateData (tickAt 10 (Some (command True True True True))) (powerOn packet0)))"
  using valves_closed_between_ticks [of "[tickAt 10 (Some (command True True True True))]" packet0
      "tickAt 20 None" "tickAt 10 (Some (command True True True True))" "powerOn packet0"]
  by (simp add: fires_def timedOut_def launchSeen_def polled_eq latch_updateData tickAt_def
      powerOn_def command_def readDataFromXbee_def didMasterTimeout_def zigbee_timeout_def
      isMasterLaunchSet_def sampled_def setPressure1_def setPressure2_def)

end
